theory Spec2Isabelle
  imports Complex_Main "HOL-Library.Sublist" "HOL-Library.AList"
begin

section \<open>Python values used by the trainer script\<close>

text \<open>
  The script \<^verbatim>\<open>trainer/flex_sibi.py\<close> is a linear training job. Exceptions are values of
  the type \<open>error\<close>; a function that may raise returns \<open>error + 'a\<close> with \<open>Inl\<close> the
  exception. Strings are character lists.
\<close>

datatype error =
    IndexError
  | KeyError string
  | ValueError string
  | GenericException string

subsection \<open>String and list primitives\<close>

text \<open>\<^verbatim>\<open>s.split(c)\<close> for a one-character separator: one more token than separators.\<close>

fun py_split :: "char \<Rightarrow> string \<Rightarrow> string list" where
  "py_split c [] = [[]]"
| "py_split c (x # xs) =
     (if x = c then [] # py_split c xs
      else (case py_split c xs of [] \<Rightarrow> [[x]] | t # ts \<Rightarrow> (x # t) # ts))"

text \<open>\<^verbatim>\<open>sep.join(xs)\<close>.\<close>

fun py_join :: "string \<Rightarrow> string list \<Rightarrow> string" where
  "py_join sep [] = []"
| "py_join sep [x] = x"
| "py_join sep (x # y # ys) = x @ sep @ py_join sep (y # ys)"

definition startswith :: "string \<Rightarrow> string \<Rightarrow> bool" where
  "startswith s p = (take (length p) s = p)"

definition endswith :: "string \<Rightarrow> string \<Rightarrow> bool" where
  "endswith s p = (length p \<le> length s \<and> drop (length s - length p) s = p)"

text \<open>\<^verbatim>\<open>xs[i]\<close> for \<open>i \<ge> 0\<close> and \<^verbatim>\<open>xs[-1]\<close>: out of range raises IndexError.\<close>

definition getitem :: "'a list \<Rightarrow> nat \<Rightarrow> error + 'a" where
  "getitem xs i = (if i < length xs then Inr (xs ! i) else Inl IndexError)"

definition getlast :: "'a list \<Rightarrow> error + 'a" where
  "getlast xs = (case xs of [] \<Rightarrow> Inl IndexError | _ \<Rightarrow> Inr (last xs))"

text \<open>\<^verbatim>\<open>s[:-k]\<close>: all but the last \<open>k\<close> elements, empty when there are no more than \<open>k\<close>.\<close>

definition drop_last :: "nat \<Rightarrow> 'a list \<Rightarrow> 'a list" where
  "drop_last k s = take (length s - k) s"

section \<open>The URI parser\<close>

text \<open>
  \<^verbatim>\<open>url_arr\<close> after the optional \<^verbatim>\<open>pop()\<close> of the file name, together with the file
  name: the last token is popped exactly when it contains a dot.
\<close>

definition split_file :: "string \<Rightarrow> error + (string list \<times> string)" where
  "split_file uri =
     (let url_arr = py_split CHR ''/'' uri in
      case getlast url_arr of
        Inl e \<Rightarrow> Inl e
      | Inr l \<Rightarrow>
          if CHR ''.'' \<notin> set l then Inr (url_arr, [])
          else Inr (butlast url_arr, l))"

definition process_gcs_uri :: "string \<Rightarrow> error + (string \<times> string \<times> string \<times> string)" where
  "process_gcs_uri uri =
     (case split_file uri of
        Inl e \<Rightarrow> Inl e
      | Inr (url_arr, file) \<Rightarrow>
          (case getitem url_arr 0 of
             Inl e \<Rightarrow> Inl e
           | Inr scheme \<Rightarrow>
               (case getitem url_arr 2 of
                  Inl e \<Rightarrow> Inl e
                | Inr bucket \<Rightarrow>
                    (let path = py_join ''/'' (drop 3 url_arr);
                         path = (if endswith path ''/'' then drop_last 1 path else path)
                     in Inr (scheme, bucket, path, file)))))"

text \<open>The tokens that remain in \<^verbatim>\<open>url_arr\<close> when \<^verbatim>\<open>url_arr[0]\<close> is read.\<close>

definition remaining_tokens :: "string \<Rightarrow> string list" where
  "remaining_tokens uri =
     (let url_arr = py_split CHR ''/'' uri in
      if CHR ''.'' \<notin> set (last url_arr) then url_arr else butlast url_arr)"


section \<open>Tables and the cleaner\<close>

text \<open>
  A float64 value other than NaN is a number or an infinity; a Python float is such a value
  or NaN (\<open>None\<close>). The rounding of float64 arithmetic is not modelled: where the script
  averages floats, the average that the library computes, from a non-empty list of values
  other than NaN to a float, is the parameter \<open>avg\<close>. A cell of a table holds a float or a
  string. A table (\<^verbatim>\<open>pandas.DataFrame\<close>) is the list of its named columns, each column
  the list of its cells in row order.
\<close>

datatype float64 = Finite rat | PosInf | NegInf

type_synonym pyfloat = "float64 option"

datatype cell = Float pyfloat | Str string

type_synonym series = "cell list"

type_synonym table = "(string \<times> series) list"

text \<open>\<^verbatim>\<open>df[n]\<close> raises KeyError for an absent column; \<^verbatim>\<open>df[n] = col\<close> replaces the
  column in place, or appends it.\<close>

definition df_getitem :: "table \<Rightarrow> string \<Rightarrow> error + series" where
  "df_getitem df n = (case map_of df n of None \<Rightarrow> Inl (KeyError n) | Some col \<Rightarrow> Inr col)"

definition df_setitem :: "table \<Rightarrow> string \<Rightarrow> series \<Rightarrow> table" where
  "df_setitem df n col = AList.update n col df"

text \<open>
  \<^verbatim>\<open>pd.to_numeric(col, errors='coerce')\<close>: the library's reading of a string as a number
  is the parameter \<open>num\<close>; a string it cannot read becomes NaN.
\<close>

fun coerce :: "(string \<Rightarrow> pyfloat) \<Rightarrow> cell \<Rightarrow> cell" where
  "coerce num (Float f) = Float f"
| "coerce num (Str s) = Float (num s)"

definition to_numeric :: "(string \<Rightarrow> pyfloat) \<Rightarrow> series \<Rightarrow> series" where
  "to_numeric num col = map (coerce num) col"

text \<open>The float values of a column, NaN and strings skipped.\<close>

fun numbers :: "series \<Rightarrow> float64 list" where
  "numbers [] = []"
| "numbers (Float (Some r) # cs) = r # numbers cs"
| "numbers (c # cs) = numbers cs"

text \<open>\<^verbatim>\<open>col.mean()\<close> skips NaN and is NaN when nothing is left; otherwise it is the
  float64 average of what is left.\<close>

definition mean :: "(float64 list \<Rightarrow> pyfloat) \<Rightarrow> series \<Rightarrow> pyfloat" where
  "mean avg col = (let xs = numbers col in if xs = [] then None else avg xs)"

text \<open>\<^verbatim>\<open>col.fillna(v)\<close>: with \<open>v\<close> NaN the column is unchanged.\<close>

definition fillna :: "series \<Rightarrow> pyfloat \<Rightarrow> series" where
  "fillna col v = map (\<lambda>c. if c = Float None then Float v else c) col"

text \<open>
  \<^verbatim>\<open>clean_missing_numerics\<close> mutates \<^verbatim>\<open>df\<close> in place: the result is the table as the
  call leaves it, with the exception raised, if any.
\<close>

fun clean_missing_numerics ::
  "(string \<Rightarrow> pyfloat) \<Rightarrow> (float64 list \<Rightarrow> pyfloat) \<Rightarrow> table \<Rightarrow> string list
     \<Rightarrow> table \<times> error option" where
  "clean_missing_numerics num avg df [] = (df, None)"
| "clean_missing_numerics num avg df (n # ns) =
     (case df_getitem df n of
        Inl e \<Rightarrow> (df, Some e)
      | Inr col \<Rightarrow>
          (let df1 = df_setitem df n (to_numeric num col) in
           case df_getitem df1 n of
             Inl e \<Rightarrow> (df1, Some e)
           | Inr col1 \<Rightarrow>
               (let df2 = df_setitem df1 n (fillna col1 (mean avg col1)) in
                clean_missing_numerics num avg df2 ns)))"

text \<open>What the two assignments of the loop body make of one column.\<close>

definition cleaned ::
  "(string \<Rightarrow> pyfloat) \<Rightarrow> (float64 list \<Rightarrow> pyfloat) \<Rightarrow> series \<Rightarrow> series" where
  "cleaned num avg col = (let col1 = to_numeric num col in fillna col1 (mean avg col1))"

text \<open>A sample reading of strings as numbers, for the evaluations below: unsigned decimal
  integers and the two infinities.\<close>

fun digit_val :: "char \<Rightarrow> nat option" where
  "digit_val c =
     (let k = (of_char c :: nat) in if 48 \<le> k \<and> k \<le> 57 then Some (k - 48) else None)"

fun digits_val :: "nat \<Rightarrow> string \<Rightarrow> nat option" where
  "digits_val acc [] = Some acc"
| "digits_val acc (c # cs) =
     (case digit_val c of None \<Rightarrow> None | Some d \<Rightarrow> digits_val (10 * acc + d) cs)"

definition decimal :: "string \<Rightarrow> pyfloat" where
  "decimal s =
     (if s = ''inf'' then Some PosInf
      else if s = ''-inf'' then Some NegInf
      else if s = [] then None
      else map_option (\<lambda>k. Finite (of_nat k)) (digits_val 0 s))"

text \<open>A sample average, for the evaluations below: exact, where float64 rounds; NaN for both
  infinities together.\<close>

fun finite_part :: "float64 \<Rightarrow> rat" where
  "finite_part (Finite r) = r"
| "finite_part _ = 0"

definition exact_average :: "float64 list \<Rightarrow> pyfloat" where
  "exact_average xs =
     (if PosInf \<in> set xs \<and> NegInf \<in> set xs then None
      else if PosInf \<in> set xs then Some PosInf
      else if NegInf \<in> set xs then Some NegInf
      else Some (Finite (sum_list (map finite_part xs) / of_nat (length xs))))"

text \<open>A table for the evaluations below: one feature column with an unreadable value, and the labels.\<close>

definition sample_table :: table where
  "sample_table =
     [(''p2'', [Str ''1'', Str ''x'', Float (Some (Finite 4))]),
      (''text'', [Str ''a'', Str ''b'', Str ''a''])]"

section \<open>External services\<close>

text \<open>
  Calls to the storage, warehouse and logging libraries are recorded, in order, in a trace;
  what the services answer is a parameter of the model.
\<close>

datatype event =
    LogInfo string
  | Print string
  | ReadCsv string
  | BigQueryClient string
  | BigQueryReadClient
  | Query string
  | StorageClient
  | Bucket string
  | Blob string
  | UploadFromString string string string

type_synonym world = "event list"

record env =
  read_csv :: "string \<Rightarrow> error + table"
  bq_query :: "string \<Rightarrow> string \<Rightarrow> error + table"
  gcs_upload :: "string \<Rightarrow> string \<Rightarrow> string \<Rightarrow> error option"

definition nl :: string where
  "nl = [CHR 0x0A]"

section \<open>The data loaders\<close>

definition load_data_from_gcs :: "env \<Rightarrow> string \<Rightarrow> world \<Rightarrow> (error + table) \<times> world" where
  "load_data_from_gcs ev data_gcs_path w =
     (read_csv ev data_gcs_path,
      w @ [LogInfo (''reading gs data: '' @ data_gcs_path), ReadCsv data_gcs_path])"

text \<open>The unpacking \<^verbatim>\<open>project,dataset,table = bq_uri.split(".")\<close> raises ValueError
  unless there are exactly three tokens (the message is kept without its counts).\<close>

definition load_data_from_bq :: "env \<Rightarrow> string \<Rightarrow> world \<Rightarrow> (error + table) \<times> world" where
  "load_data_from_bq ev bq_uri w =
     (if \<not> startswith bq_uri ''bq://'' then
        (Inl (GenericException
           ''uri is not a BQ uri. It should be bq://project_id.dataset.table''), w)
      else
        (let w1 = w @ [LogInfo (''reading bq data: '' @ bq_uri)] in
         case py_split CHR ''.'' bq_uri of
           [project, dataset, tbl] \<Rightarrow>
             (let w2 = w1 @ [BigQueryClient (drop 5 project), BigQueryReadClient];
                  query_string =
                    nl @ ''    SELECT * from '' @ dataset @ ''.'' @ tbl @ nl @ ''    ''
              in (bq_query ev (drop 5 project) query_string, w2 @ [Query query_string]))
         | toks \<Rightarrow>
             (Inl (ValueError
                (if length toks < 3 then ''not enough values to unpack''
                 else ''too many values to unpack'')), w1)))"

section \<open>Command line and the loading stage of the main program\<close>

text \<open>\<^verbatim>\<open>bool(s)\<close> on a string.\<close>

definition py_bool :: "string \<Rightarrow> bool" where
  "py_bool s = (s \<noteq> [])"

text \<open>
  \<^verbatim>\<open>--model_param_probability\<close> is declared with \<^verbatim>\<open>type = bool, default = True\<close>: the
  argument parser applies \<^verbatim>\<open>bool\<close> to the string given on the command line, and takes the
  default as it is when the flag is absent.
\<close>

definition model_param_probability :: "string option \<Rightarrow> bool" where
  "model_param_probability given = (case given of None \<Rightarrow> True | Some s \<Rightarrow> py_bool s)"

record arguments =
  data_format :: string
  training_data_uri :: string
  validation_data_uri :: string
  test_data_uri :: string

text \<open>Lines 382 to 392 of the script: the tables \<^verbatim>\<open>(df_train, df_test, df_valid)\<close>.\<close>

definition load_tables ::
  "env \<Rightarrow> arguments \<Rightarrow> world \<Rightarrow> (error + (table \<times> table \<times> table)) \<times> world" where
  "load_tables ev args w =
     (if data_format args = ''csv'' then
        (case load_data_from_gcs ev (training_data_uri args) w of
           (Inl e, w1) \<Rightarrow> (Inl e, w1)
         | (Inr df_train, w1) \<Rightarrow>
             (case load_data_from_bq ev (test_data_uri args) w1 of
                (Inl e, w2) \<Rightarrow> (Inl e, w2)
              | (Inr df_test, w2) \<Rightarrow>
                  (case load_data_from_gcs ev (validation_data_uri args) w2 of
                     (Inl e, w3) \<Rightarrow> (Inl e, w3)
                   | (Inr df_valid, w3) \<Rightarrow> (Inr (df_train, df_test, df_valid), w3))))
      else if data_format args = ''bigquery'' then
        (case load_data_from_bq ev (training_data_uri args)
                (w @ [Print (training_data_uri args)]) of
           (Inl e, w1) \<Rightarrow> (Inl e, w1)
         | (Inr df_train, w1) \<Rightarrow>
             (case load_data_from_bq ev (test_data_uri args) w1 of
                (Inl e, w2) \<Rightarrow> (Inl e, w2)
              | (Inr df_test, w2) \<Rightarrow>
                  (case load_data_from_bq ev (validation_data_uri args) w2 of
                     (Inl e, w3) \<Rightarrow> (Inl e, w3)
                   | (Inr df_valid, w3) \<Rightarrow> (Inr (df_train, df_test, df_valid), w3))))
      else (Inl (ValueError ''Invalid data type ''), w))"

text \<open>Services for the evaluations below: every read and query answers an empty table.\<close>

definition quiet_env :: env where
  "quiet_env =
     \<lparr>read_csv = (\<lambda>_. Inr []), bq_query = (\<lambda>_ _. Inr []), gcs_upload = (\<lambda>_ _ _. None)\<rparr>"

section \<open>The trainer\<close>

text \<open>
  The statistical toolkit is a parameter: \<^verbatim>\<open>cross_val_score\<close> works on clones and answers
  the fold scores; \<^verbatim>\<open>fit\<close> leaves the pipeline fitted (or as the failure left it).
  \<^verbatim>\<open>ndarray.mean()\<close> is NaN for no scores or when a score is NaN, and otherwise the
  float64 average \<open>avg\<close> of the scores.
\<close>

datatype ml_call = CrossValScore nat | Fit

record ('p, 'x, 'y) toolkit =
  cross_val_score :: "'p \<Rightarrow> 'x \<Rightarrow> 'y \<Rightarrow> nat \<Rightarrow> error + pyfloat list"
  fit :: "'p \<Rightarrow> 'x \<Rightarrow> 'y \<Rightarrow> 'p \<times> error option"

definition np_mean :: "(float64 list \<Rightarrow> pyfloat) \<Rightarrow> pyfloat list \<Rightarrow> pyfloat" where
  "np_mean avg xs = (if xs = [] \<or> None \<in> set xs then None else avg (map the xs))"

text \<open>The result of \<^verbatim>\<open>train_pipeline\<close>, the pipeline object after the call, and the
  toolkit calls made.\<close>

definition train_pipeline ::
  "(float64 list \<Rightarrow> pyfloat) \<Rightarrow> ('p, 'x, 'y) toolkit \<Rightarrow> 'p \<Rightarrow> 'x \<Rightarrow> 'y
     \<Rightarrow> (error + pyfloat) \<times> 'p \<times> ml_call list" where
  "train_pipeline avg tk clf X y =
     (case cross_val_score tk clf X y 10 of
        Inl e \<Rightarrow> (Inl e, clf, [CrossValScore 10])
      | Inr scores \<Rightarrow>
          (let score = np_mean avg scores in
           case fit tk clf X y of
             (clf', Some e) \<Rightarrow> (Inl e, clf', [CrossValScore 10, Fit])
           | (clf', None) \<Rightarrow> (Inr score, clf', [CrossValScore 10, Fit])))"

text \<open>
  A sample toolkit, for the evaluations below: cross-validation needs as many rows as folds
  and answers one score per fold, \<open>1/10\<close>, \<open>2/10\<close> and so on; fitting counts the fits.
\<close>

definition counting_toolkit :: "(nat, unit list, unit list) toolkit" where
  "counting_toolkit =
     \<lparr>cross_val_score =
        (\<lambda>clf X y k.
           if length X < k then
             Inl (ValueError ''n_splits cannot be greater than the number of samples'')
           else Inr (map (\<lambda>i. Some (Finite (of_nat i / 10))) [1..<Suc k])),
      fit = (\<lambda>clf X y. (Suc clf, None))\<rparr>"

section \<open>The exporters\<close>

text \<open>\<^verbatim>\<open>os.path.join(a, b)\<close> on a POSIX system.\<close>

definition os_path_join :: "string \<Rightarrow> string \<Rightarrow> string" where
  "os_path_join a b =
     (if startswith b ''/'' then b
      else if a = [] \<or> endswith a ''/'' then a @ b
      else a @ ''/'' @ b)"

text \<open>\<open>dumps\<close> is \<^verbatim>\<open>pickle.dumps\<close>.\<close>

definition pipeline_export_gcs ::
  "env \<Rightarrow> ('p \<Rightarrow> string) \<Rightarrow> 'p \<Rightarrow> string \<Rightarrow> world \<Rightarrow> (error + string) \<times> world" where
  "pipeline_export_gcs ev dumps fitted_pipeline model_dir w =
     (case process_gcs_uri model_dir of
        Inl e \<Rightarrow> (Inl e, w)
      | Inr (scheme, bucket, path, file) \<Rightarrow>
          if scheme \<noteq> ''gs:'' then (Inl (ValueError ''URI scheme must be gs''), w)
          else
            (let export_path = os_path_join path ''model.pkl'';
                 blob = dumps fitted_pipeline;
                 w1 = w @ [StorageClient, Bucket bucket, Blob export_path,
                           UploadFromString bucket export_path blob]
             in case gcs_upload ev bucket export_path blob of
                  Some e \<Rightarrow> (Inl e, w1)
                | None \<Rightarrow> (Inr (scheme @ ''//'' @ os_path_join bucket export_path), w1)))"

definition report_export_gcs ::
  "env \<Rightarrow> string \<Rightarrow> string \<Rightarrow> world \<Rightarrow> (error + string) \<times> world" where
  "report_export_gcs ev report report_dir w =
     (case process_gcs_uri report_dir of
        Inl e \<Rightarrow> (Inl e, w)
      | Inr (scheme, bucket, path, file) \<Rightarrow>
          if scheme \<noteq> ''gs:'' then (Inl (ValueError ''URI scheme must be gs''), w)
          else
            (let export_path = os_path_join path ''report.txt'';
                 w1 = w @ [StorageClient, Bucket bucket, Blob export_path,
                           UploadFromString bucket export_path report]
             in case gcs_upload ev bucket export_path report of
                  Some e \<Rightarrow> (Inl e, w1)
                | None \<Rightarrow> (Inr (scheme @ ''//'' @ os_path_join bucket export_path), w1)))"

section \<open>The report\<close>

text \<open>
  Python's renderings of values as text are parameters: \<^verbatim>\<open>str\<close> of a float, the text of
  the column list, and \<^verbatim>\<open>json.dumps\<close> of the parameter record and of the example rows.
\<close>

record 'm renderers =
  str_float :: "pyfloat \<Rightarrow> string"
  str_columns :: "string list \<Rightarrow> string"
  json_dumps_params :: "'m \<Rightarrow> string"
  json_dumps_rows :: "cell list list \<Rightarrow> string"

text \<open>The body of the inner loop, and of the outer loop, of \<^verbatim>\<open>prepare_report\<close>.\<close>

definition add_cell :: "'m renderers \<Rightarrow> string \<Rightarrow> cell \<Rightarrow> string" where
  "add_cell py buf c =
     (case c of
        Str s \<Rightarrow> buf @ [CHR 0x27] @ s @ [CHR 0x27] @ '', ''
      | Float f \<Rightarrow> buf @ str_float py f @ '', '')"

definition add_row :: "'m renderers \<Rightarrow> string \<Rightarrow> cell list \<Rightarrow> string" where
  "add_row py buf r = drop_last 2 (foldl (add_cell py) (buf @ ''['') r) @ ''], '' @ nl"

definition buffer_example_data :: "'m renderers \<Rightarrow> cell list list \<Rightarrow> string" where
  "buffer_example_data py example_data =
     drop_last 3 (foldl (add_row py) ''['' example_data) @ '']''"

definition prepare_report ::
  "'m renderers \<Rightarrow> pyfloat \<Rightarrow> 'm \<Rightarrow> string \<Rightarrow> string list \<Rightarrow> cell list list \<Rightarrow> string" where
  "prepare_report py cv_score model_params classification_report columns example_data =
     nl @ ''Training Job Report    '' @ nl
     @ ''    '' @ nl
     @ ''Cross Validation Score: '' @ str_float py cv_score @ nl
     @ nl
     @ ''Training Model Parameters: '' @ json_dumps_params py model_params @ nl
     @ ''    '' @ nl
     @ ''Test Data Classification Report:'' @ nl
     @ classification_report @ nl
     @ nl
     @ ''Example of data array for prediciton:'' @ nl
     @ nl
     @ ''Order of columns:'' @ nl
     @ str_columns py columns @ nl
     @ nl
     @ ''Example for clf.predict()'' @ nl
     @ buffer_example_data py example_data @ nl
     @ nl
     @ nl
     @ ''Example of GCP API request body:'' @ nl
     @ ''{'' @ nl
     @ ''    '' @ [CHR 0x22] @ ''instances'' @ [CHR 0x22] @ '': ''
       @ json_dumps_rows py example_data @ nl
     @ ''}'' @ nl
     @ nl"

section \<open>Properties of the string primitives\<close>

lemma py_split_not_Nil [simp]: "py_split c s \<noteq> []"
  by (induction s) (auto split: list.splits)

lemma py_split_no_sep: "c \<notin> set s \<Longrightarrow> py_split c s = [s]"
  by (induction s) auto

lemma py_split_append_sep: "py_split c (xs @ c # ys) = py_split c xs @ py_split c ys"
proof (induction xs)
  case Nil
  show ?case by simp
next
  case (Cons x xs)
  obtain t ts where ts: "py_split c xs = t # ts"
    by (cases "py_split c xs") auto
  with Cons show ?case by simp
qed

lemma py_join_snoc: "xs \<noteq> [] \<Longrightarrow> py_join sep (xs @ [y]) = py_join sep xs @ sep @ y"
proof (induction sep xs rule: py_join.induct)
  case (3 sep x y' ys)
  then show ?case by simp
qed simp_all

lemma py_join_py_split: "py_join [c] (py_split c s) = s"
proof (induction s)
  case Nil
  show ?case by simp
next
  case (Cons x xs)
  obtain t ts where ts: "py_split c xs = t # ts"
    by (cases "py_split c xs") auto
  show ?case
  proof (cases "x = c")
    case True
    with Cons ts show ?thesis by simp
  next
    case False
    with Cons ts show ?thesis by (cases ts) auto
  qed
qed

lemma split_file_tokens: "split_file uri = Inr (remaining_tokens uri,
    (if CHR ''.'' \<notin> set (last (py_split CHR ''/'' uri)) then [] else last (py_split CHR ''/'' uri)))"
  by (simp add: split_file_def remaining_tokens_def getlast_def Let_def split: list.splits)

lemma process_gcs_uri_tokens:
  "process_gcs_uri uri =
     (if length (remaining_tokens uri) < 3 then Inl IndexError
      else Inr (remaining_tokens uri ! 0, remaining_tokens uri ! 2,
             (let path = py_join ''/'' (drop 3 (remaining_tokens uri)) in
              if endswith path ''/'' then drop_last 1 path else path),
             (if CHR ''.'' \<notin> set (last (py_split CHR ''/'' uri)) then []
              else last (py_split CHR ''/'' uri))))"
  by (simp add: process_gcs_uri_def split_file_tokens getitem_def Let_def)

section \<open>The URI parser: results\<close>

text \<open>
  Claim C8. \<^verbatim>\<open>process_gcs_uri\<close> is partial. It raises IndexError exactly when fewer than
  three tokens remain after the optional pop of the file name, and returns a four-tuple
  exactly when at least three remain; the empty string, \<^verbatim>\<open>path\<close> and \<^verbatim>\<open>gs:/bucket\<close> are
  among the inputs that fail.
\<close>

theorem process_gcs_uri_partial:
  "(process_gcs_uri uri = Inl IndexError) = (length (remaining_tokens uri) < 3)
   \<and> (\<exists>scheme bucket path fname. process_gcs_uri uri = Inr (scheme, bucket, path, fname))
       = (3 \<le> length (remaining_tokens uri))
   \<and> process_gcs_uri '''' = Inl IndexError
   \<and> process_gcs_uri ''path'' = Inl IndexError
   \<and> process_gcs_uri ''gs:/bucket'' = Inl IndexError"
proof -
  have ex: "process_gcs_uri '''' = Inl IndexError"
      "process_gcs_uri ''path'' = Inl IndexError"
      "process_gcs_uri ''gs:/bucket'' = Inl IndexError"
    by (simp_all add: process_gcs_uri_tokens remaining_tokens_def)
  show ?thesis
    using ex by (auto simp: process_gcs_uri_tokens)
qed

lemma endswith_slash: "endswith s ''/'' = (s \<noteq> [] \<and> last s = CHR ''/'')"
proof (cases s rule: rev_cases)
  case Nil
  then show ?thesis by (simp add: endswith_def)
next
  case (snoc ys y)
  then show ?thesis by (simp add: endswith_def)
qed

lemma tokens_of_shape:
  assumes "CHR ''/'' \<notin> set scheme" "CHR ''/'' \<notin> set bucket"
  shows "py_split CHR ''/'' (scheme @ ''://'' @ bucket @ ''/'' @ rest)
         = [scheme @ '':'', [], bucket] @ py_split CHR ''/'' rest"
proof -
  have "scheme @ ''://'' @ bucket @ ''/'' @ rest
        = (scheme @ '':'') @ CHR ''/'' # ([] @ CHR ''/'' # (bucket @ CHR ''/'' # rest))"
    by simp
  then show ?thesis
    using assms by (simp only: py_split_append_sep) (simp add: py_split_no_sep)
qed

text \<open>
  Claim C2, as amended. For a URI \<^verbatim>\<open>scheme://bucket/path/file.ext\<close> whose scheme, bucket
  and file name hold no slash, whose file name holds a dot and whose path does not end in a
  slash, the parser returns the scheme followed by its colon, the bucket, the path and the
  file name. For \<^verbatim>\<open>scheme://bucket/dir/\<close> it returns the scheme followed by its colon, the
  bucket, the directory without the trailing slash, and the empty file name.
\<close>

theorem process_gcs_uri_shapes:
  assumes "CHR ''/'' \<notin> set scheme" and "CHR ''/'' \<notin> set bucket"
  shows "(CHR ''/'' \<notin> set fname \<and> CHR ''.'' \<in> set fname \<and> \<not> endswith path ''/'' \<longrightarrow>
           process_gcs_uri (scheme @ ''://'' @ bucket @ ''/'' @ path @ ''/'' @ fname)
             = Inr (scheme @ '':'', bucket, path, fname))
         \<and> process_gcs_uri (scheme @ ''://'' @ bucket @ ''/'' @ dir @ ''/'')
             = Inr (scheme @ '':'', bucket, dir, [])"
proof (intro conjI impI)
  assume f: "CHR ''/'' \<notin> set fname \<and> CHR ''.'' \<in> set fname \<and> \<not> endswith path ''/''"
  define uri where "uri = scheme @ ''://'' @ bucket @ ''/'' @ path @ ''/'' @ fname"
  have "py_split CHR ''/'' (path @ ''/'' @ fname) = py_split CHR ''/'' path @ [fname]"
    using f py_split_append_sep [of "CHR ''/''" path fname] by (simp add: py_split_no_sep)
  then have toks: "py_split CHR ''/'' uri
      = [scheme @ '':'', [], bucket] @ py_split CHR ''/'' path @ [fname]"
    unfolding uri_def using tokens_of_shape [OF assms, of "path @ ''/'' @ fname"] by simp
  have l: "last (py_split CHR ''/'' uri) = fname"
    by (simp add: toks)
  have r: "remaining_tokens uri = [scheme @ '':'', [], bucket] @ py_split CHR ''/'' path"
    using f by (simp add: remaining_tokens_def l Let_def) (simp add: toks butlast_append)
  have "process_gcs_uri uri = Inr (scheme @ '':'', bucket, path, fname)"
    using f py_join_py_split [of "CHR ''/''" path]
    by (simp add: process_gcs_uri_tokens r l Let_def)
  then show "process_gcs_uri (scheme @ ''://'' @ bucket @ ''/'' @ path @ ''/'' @ fname)
          = Inr (scheme @ '':'', bucket, path, fname)"
    by (simp only: uri_def)
next
  define uri where "uri = scheme @ ''://'' @ bucket @ ''/'' @ dir @ ''/''"
  have "py_split CHR ''/'' (dir @ ''/'') = py_split CHR ''/'' dir @ [[]]"
    using py_split_append_sep [of "CHR ''/''" dir "[]"] by simp
  then have toks: "py_split CHR ''/'' uri
      = [scheme @ '':'', [], bucket] @ py_split CHR ''/'' dir @ [[]]"
    unfolding uri_def using tokens_of_shape [OF assms, of "dir @ ''/''"] by simp
  have l: "last (py_split CHR ''/'' uri) = []"
    by (simp add: toks)
  have r: "remaining_tokens uri = [scheme @ '':'', [], bucket] @ py_split CHR ''/'' dir @ [[]]"
    by (simp add: remaining_tokens_def l Let_def) (simp add: toks)
  have j: "py_join ''/'' (py_split CHR ''/'' dir @ [[]]) = dir @ ''/''"
    using py_join_py_split [of "CHR ''/''" dir] by (simp add: py_join_snoc)
  have "process_gcs_uri uri = Inr (scheme @ '':'', bucket, dir, [])"
    by (simp add: process_gcs_uri_tokens r l j Let_def endswith_slash drop_last_def)
  then show "process_gcs_uri (scheme @ ''://'' @ bucket @ ''/'' @ dir @ ''/'')
          = Inr (scheme @ '':'', bucket, dir, [])"
    by (simp only: uri_def)
qed

theorem process_gcs_uri_shapes_witness:
  "CHR ''/'' \<notin> set ''gs'' \<and> CHR ''/'' \<notin> set ''bucket'' \<and> CHR ''/'' \<notin> set ''file.ext''
   \<and> CHR ''.'' \<in> set ''file.ext'' \<and> \<not> endswith ''path'' ''/''
   \<and> process_gcs_uri ''gs://bucket/path/file.ext'' = Inr (''gs:'', ''bucket'', ''path'', ''file.ext'')
   \<and> process_gcs_uri ''gs://bucket/path/'' = Inr (''gs:'', ''bucket'', ''path'', [])"
  using process_gcs_uri_shapes [of "''gs''" "''bucket''" "''file.ext''" "''path''" "''path''"]
  by (simp add: endswith_def)

text \<open>
  The claim as first stated fails: the first component of the result is \<^verbatim>\<open>gs:\<close>, with the
  colon, which is also what the exporters compare it with.
\<close>

theorem process_gcs_uri_scheme_counterexample:
  "process_gcs_uri ''gs://bucket/path/file.ext'' = Inr (''gs:'', ''bucket'', ''path'', ''file.ext'')
   \<and> process_gcs_uri ''gs://bucket/path/file.ext'' \<noteq> Inr (''gs'', ''bucket'', ''path'', ''file.ext'')"
  by (simp add: process_gcs_uri_tokens remaining_tokens_def Let_def endswith_def)

section \<open>The probability flag\<close>

text \<open>
  Claim C10. The value of \<^verbatim>\<open>--model_param_probability\<close> is the truthiness of the raw
  string: every non-empty string, \<^verbatim>\<open>False\<close>, \<^verbatim>\<open>0\<close> and \<^verbatim>\<open>no\<close> among them, gives True; only
  the empty string gives False; an absent flag gives the default True.
\<close>

theorem probability_flag_truthiness:
  "(\<forall>s. s \<noteq> [] \<longrightarrow> model_param_probability (Some s))
   \<and> model_param_probability (Some ''False'')
   \<and> model_param_probability (Some ''0'')
   \<and> model_param_probability (Some ''no'')
   \<and> (\<forall>s. \<not> model_param_probability (Some s) \<longrightarrow> s = [])
   \<and> \<not> model_param_probability (Some [])
   \<and> model_param_probability None"
  by (simp add: model_param_probability_def py_bool_def)

theorem probability_flag_truthiness_witness:
  "''False'' \<noteq> [] \<and> model_param_probability (Some ''False'')
   \<and> \<not> model_param_probability (Some '''') \<and> '''' = []"
  using probability_flag_truthiness by simp

section \<open>The exporters: scheme validation\<close>

text \<open>
  Claim C4. When the parsed scheme of the directory URI is not \<^verbatim>\<open>gs:\<close>, both
  \<^verbatim>\<open>pipeline_export_gcs\<close> and \<^verbatim>\<open>report_export_gcs\<close> raise the scheme error and the trace
  of service calls is what it was: no client is made and nothing is uploaded.
\<close>

theorem export_rejects_other_schemes:
  assumes "process_gcs_uri dir_uri = Inr (scheme, bucket, path, fname)"
    and "scheme \<noteq> ''gs:''"
  shows "pipeline_export_gcs ev dumps fitted_pipeline dir_uri w
           = (Inl (ValueError ''URI scheme must be gs''), w)
         \<and> report_export_gcs ev report dir_uri w
           = (Inl (ValueError ''URI scheme must be gs''), w)"
  using assms by (simp add: pipeline_export_gcs_def report_export_gcs_def)

theorem export_rejects_other_schemes_witness:
  "process_gcs_uri ''http://bucket/path'' = Inr (''http:'', ''bucket'', ''path'', [])
   \<and> ''http:'' \<noteq> ''gs:''
   \<and> pipeline_export_gcs quiet_env id ''pickled'' ''http://bucket/path'' []
       = (Inl (ValueError ''URI scheme must be gs''), [])
   \<and> report_export_gcs quiet_env ''report'' ''http://bucket/path'' []
       = (Inl (ValueError ''URI scheme must be gs''), [])"
proof -
  have p: "process_gcs_uri ''http://bucket/path'' = Inr (''http:'', ''bucket'', ''path'', [])"
    by (simp add: process_gcs_uri_tokens remaining_tokens_def Let_def endswith_def)
  have s: "''http:'' \<noteq> ''gs:''" by simp
  show ?thesis
    using p s export_rejects_other_schemes [OF p s, of quiet_env id "''pickled''" "[]" "''report''"]
    by simp
qed

section \<open>The warehouse loader\<close>




section \<open>The loading stage\<close>

text \<open>
  Claim C1 says that with \<^verbatim>\<open>data_format = csv\<close> all three tables come from the CSV
  loader. The script sends the test URI to the warehouse loader in that branch: a run
  with three storage URIs stops at the test table with the warehouse loader's input
  error, and a warehouse reference given as test URI is queried.
\<close>

theorem csv_test_table_from_warehouse_loader:
  "load_tables quiet_env
      \<lparr>data_format = ''csv'', training_data_uri = ''gs://bucket/train.csv'',
       validation_data_uri = ''gs://bucket/valid.csv'',
       test_data_uri = ''gs://bucket/test.csv''\<rparr> []
     = (Inl (GenericException
          ''uri is not a BQ uri. It should be bq://project_id.dataset.table''),
        [LogInfo ''reading gs data: gs://bucket/train.csv'', ReadCsv ''gs://bucket/train.csv''])
   \<and> load_tables quiet_env
      \<lparr>data_format = ''csv'', training_data_uri = ''gs://bucket/train.csv'',
       validation_data_uri = ''gs://bucket/valid.csv'',
       test_data_uri = ''bq://proj.ds.test''\<rparr> []
     = (Inr ([], [], []),
        [LogInfo ''reading gs data: gs://bucket/train.csv'', ReadCsv ''gs://bucket/train.csv'',
         LogInfo ''reading bq data: bq://proj.ds.test'',
         BigQueryClient ''proj'', BigQueryReadClient,
         Query (nl @ ''    SELECT * from ds.test'' @ nl @ ''    ''),
         LogInfo ''reading gs data: gs://bucket/valid.csv'', ReadCsv ''gs://bucket/valid.csv''])"
  by (simp add: load_tables_def load_data_from_gcs_def load_data_from_bq_def startswith_def
      quiet_env_def Let_def)

section \<open>The report: fixed headings and the echoed parameters\<close>

lemma sublist_mid: "ys = ps @ xs @ ss \<Longrightarrow> sublist xs ys"
  by (auto simp: sublist_def)

text \<open>
  Claim C7. For every score, parameter record, metrics text, column list and example rows,
  the report holds the three headings \<^verbatim>\<open>Cross Validation Score:\<close>,
  \<^verbatim>\<open>Training Model Parameters:\<close> and \<^verbatim>\<open>Example of GCP API request body:\<close>, and the JSON
  text of the parameter record as the caller gave it, on the line of its heading.
\<close>

theorem prepare_report_contents:
  "sublist ''Cross Validation Score:''
     (prepare_report py cv_score model_params classification_report columns example_data)
   \<and> sublist ''Training Model Parameters:''
     (prepare_report py cv_score model_params classification_report columns example_data)
   \<and> sublist ''Example of GCP API request body:''
     (prepare_report py cv_score model_params classification_report columns example_data)
   \<and> sublist (''Training Model Parameters: '' @ json_dumps_params py model_params @ nl)
     (prepare_report py cv_score model_params classification_report columns example_data)"
proof (intro conjI)
  let ?r = "prepare_report py cv_score model_params classification_report columns example_data"
  let ?mid = "''    '' @ nl
     @ ''Test Data Classification Report:'' @ nl
     @ classification_report @ nl
     @ nl
     @ ''Example of data array for prediciton:'' @ nl
     @ nl
     @ ''Order of columns:'' @ nl
     @ str_columns py columns @ nl
     @ nl
     @ ''Example for clf.predict()'' @ nl
     @ buffer_example_data py example_data @ nl
     @ nl
     @ nl"
  let ?tail = "nl
     @ ''{'' @ nl
     @ ''    '' @ [CHR 0x22] @ ''instances'' @ [CHR 0x22] @ '': ''
       @ json_dumps_rows py example_data @ nl
     @ ''}'' @ nl
     @ nl"
  let ?head = "nl @ ''Training Job Report    '' @ nl @ ''    '' @ nl"
  have 1: "?r = ?head @ ''Cross Validation Score:''
      @ ('' '' @ str_float py cv_score @ nl @ nl @ ''Training Model Parameters: ''
         @ json_dumps_params py model_params @ nl @ ?mid
         @ ''Example of GCP API request body:'' @ ?tail)"
    by (simp add: prepare_report_def)
  have 2: "?r = (?head @ ''Cross Validation Score: '' @ str_float py cv_score @ nl @ nl)
      @ ''Training Model Parameters:''
      @ ('' '' @ json_dumps_params py model_params @ nl @ ?mid
         @ ''Example of GCP API request body:'' @ ?tail)"
    by (simp add: prepare_report_def)
  have 3: "?r = (?head @ ''Cross Validation Score: '' @ str_float py cv_score @ nl @ nl
      @ ''Training Model Parameters: '' @ json_dumps_params py model_params @ nl @ ?mid)
      @ ''Example of GCP API request body:'' @ ?tail"
    by (simp add: prepare_report_def)
  have 4: "?r = (?head @ ''Cross Validation Score: '' @ str_float py cv_score @ nl @ nl)
      @ (''Training Model Parameters: '' @ json_dumps_params py model_params @ nl)
      @ (?mid @ ''Example of GCP API request body:'' @ ?tail)"
    by (simp add: prepare_report_def)
  show "sublist ''Cross Validation Score:'' ?r" by (rule sublist_mid [OF 1])
  show "sublist ''Training Model Parameters:'' ?r" by (rule sublist_mid [OF 2])
  show "sublist ''Example of GCP API request body:'' ?r" by (rule sublist_mid [OF 3])
  show "sublist (''Training Model Parameters: '' @ json_dumps_params py model_params @ nl) ?r"
    by (rule sublist_mid [OF 4])
qed

section \<open>The trainer: cross-validation, then fit\<close>

text \<open>
  Claim C6, as amended. \<^verbatim>\<open>train_pipeline\<close> first asks for the scores of a 10-fold
  cross-validation of the unfitted pipeline on \<open>X\<close> and \<open>y\<close>. When that raises, the error is
  the result, the pipeline is as it was and no fit is made. When it succeeds and the fit on
  all of \<open>X\<close> and \<open>y\<close> succeeds, the pipeline is left fitted and the result is the mean of
  the fold scores: their float64 average \<open>avg\<close>, or NaN when a score is NaN or there is
  none. When the fit raises, its error is the result.
\<close>

theorem train_pipeline_cv_then_fit:
  "(cross_val_score tk clf X y 10 = Inl e \<longrightarrow>
      train_pipeline avg tk clf X y = (Inl e, clf, [CrossValScore 10]))
   \<and> (cross_val_score tk clf X y 10 = Inr scores \<and> fit tk clf X y = (clf', None) \<longrightarrow>
      train_pipeline avg tk clf X y
        = (Inr (if scores = [] \<or> None \<in> set scores then None else avg (map the scores)),
           clf', [CrossValScore 10, Fit]))
   \<and> (cross_val_score tk clf X y 10 = Inr scores \<and> fit tk clf X y = (clf', Some e) \<longrightarrow>
      train_pipeline avg tk clf X y = (Inl e, clf', [CrossValScore 10, Fit]))"
  by (simp add: train_pipeline_def np_mean_def)

lemma counting_scores:
  "cross_val_score counting_toolkit clf (replicate 10 ()) (replicate 10 ()) 10
     = Inr [Some (Finite (1 / 10)), Some (Finite (2 / 10)), Some (Finite (3 / 10)),
            Some (Finite (4 / 10)), Some (Finite (5 / 10)), Some (Finite (6 / 10)),
            Some (Finite (7 / 10)), Some (Finite (8 / 10)), Some (Finite (9 / 10)),
            Some (Finite (10 / 10))]"
  by (simp add: counting_toolkit_def upt_rec)

theorem train_pipeline_cv_then_fit_witness:
  "cross_val_score counting_toolkit 0 (replicate 10 ()) (replicate 10 ()) 10
     = Inr [Some (Finite (1 / 10)), Some (Finite (2 / 10)), Some (Finite (3 / 10)),
            Some (Finite (4 / 10)), Some (Finite (5 / 10)), Some (Finite (6 / 10)),
            Some (Finite (7 / 10)), Some (Finite (8 / 10)), Some (Finite (9 / 10)),
            Some (Finite (10 / 10))]
   \<and> fit counting_toolkit 0 (replicate 10 ()) (replicate 10 ()) = (Suc 0, None)
   \<and> train_pipeline exact_average counting_toolkit 0 (replicate 10 ()) (replicate 10 ())
       = (Inr (Some (Finite (11 / 20))), Suc 0, [CrossValScore 10, Fit])
   \<and> cross_val_score counting_toolkit 0 (replicate 5 ()) (replicate 5 ()) 10
       = Inl (ValueError ''n_splits cannot be greater than the number of samples'')
   \<and> train_pipeline exact_average counting_toolkit 0 (replicate 5 ()) (replicate 5 ())
       = (Inl (ValueError ''n_splits cannot be greater than the number of samples''),
          0, [CrossValScore 10])"
proof -
  let ?scores = "[Some (Finite (1 / 10)), Some (Finite (2 / 10)), Some (Finite (3 / 10)),
            Some (Finite (4 / 10)), Some (Finite (5 / 10)), Some (Finite (6 / 10)),
            Some (Finite (7 / 10)), Some (Finite (8 / 10)), Some (Finite (9 / 10)),
            Some (Finite (10 / 10))]"
  have c: "cross_val_score counting_toolkit 0 (replicate 10 ()) (replicate 10 ()) 10
            = Inr ?scores"
    by (rule counting_scores)
  have f: "fit counting_toolkit 0 (replicate 10 ()) (replicate 10 ()) = (Suc 0, None)"
    by (simp add: counting_toolkit_def)
  have m: "exact_average (map the ?scores) = Some (Finite (11 / 20))"
    by (simp add: exact_average_def)
  have r: "cross_val_score counting_toolkit 0 (replicate 5 ()) (replicate 5 ()) 10
       = Inl (ValueError ''n_splits cannot be greater than the number of samples'')"
    by (simp add: counting_toolkit_def)
  show ?thesis
    using train_pipeline_cv_then_fit
        [where tk = counting_toolkit and clf = 0 and X = "replicate 10 ()"
           and y = "replicate 10 ()" and scores = ?scores and clf' = "Suc 0"
           and avg = exact_average]
      train_pipeline_cv_then_fit
        [where tk = counting_toolkit and clf = 0 and X = "replicate 5 ()"
           and y = "replicate 5 ()" and avg = exact_average
           and e = "ValueError ''n_splits cannot be greater than the number of samples''"]
      c f m r
    by simp
qed

text \<open>
  The claim as first stated, for every \<open>X\<close> and \<open>y\<close>, fails on five rows: the
  cross-validation raises, nothing is fitted and no score is returned.
\<close>

theorem train_pipeline_few_rows_counterexample:
  "train_pipeline exact_average counting_toolkit 0 (replicate 5 ()) (replicate 5 ())
     = (Inl (ValueError ''n_splits cannot be greater than the number of samples''),
        0, [CrossValScore 10])"
  by (simp add: train_pipeline_def counting_toolkit_def)

section \<open>The cleaner: lemmas\<close>

lemma df_getitem_setitem: "df_getitem (df_setitem df n col) n = Inr col"
  by (simp add: df_getitem_def df_setitem_def update_conv')

lemma df_setitem_twice: "df_setitem (df_setitem df n a) n b = df_setitem df n b"
  by (simp add: df_setitem_def update_last)

lemma map_of_df_setitem: "map_of (df_setitem df n col) = (map_of df)(n \<mapsto> col)"
  by (simp add: df_setitem_def update_conv')

lemma keys_df_setitem: "map_of df n = Some c \<Longrightarrow> map fst (df_setitem df n col) = map fst df"
  by (auto simp: df_setitem_def update_keys dest: map_of_SomeD intro: rev_image_eqI)

lemma clean_step:
  "clean_missing_numerics num avg df (n # ns) =
     (case map_of df n of
        None \<Rightarrow> (df, Some (KeyError n))
      | Some col \<Rightarrow> clean_missing_numerics num avg (df_setitem df n (cleaned num avg col)) ns)"
proof -
  have g: "df_getitem df n = (case map_of df n of None \<Rightarrow> Inl (KeyError n) | Some col \<Rightarrow> Inr col)"
    by (simp add: df_getitem_def)
  show ?thesis
    by (cases "map_of df n")
      (simp_all add: g df_getitem_setitem df_setitem_twice cleaned_def Let_def)
qed

lemma to_numeric_floats: "\<forall>c \<in> set col. \<exists>f. c = Float f \<Longrightarrow> to_numeric num col = col"
  by (induction col) (auto simp: to_numeric_def)

lemma coerce_is_float: "\<exists>f. coerce num c = Float f"
  by (cases c) auto

lemma to_numeric_is_float: "c \<in> set (to_numeric num col) \<Longrightarrow> \<exists>f. c = Float f"
  using coerce_is_float by (auto simp: to_numeric_def)

lemma cleaned_is_float: "c \<in> set (cleaned num avg col) \<Longrightarrow> \<exists>f. c = Float f"
  by (auto simp: cleaned_def fillna_def Let_def dest: to_numeric_is_float)

lemma fillna_None: "fillna col None = col"
  by (induction col) (auto simp: fillna_def)

lemma fillna_no_missing: "Float None \<notin> set col \<Longrightarrow> fillna col v = col"
  by (induction col) (auto simp: fillna_def)

lemma fillna_Some_no_missing: "Float None \<notin> set (fillna col (Some m))"
  by (auto simp: fillna_def)

lemma cleaned_idem: "cleaned num avg (cleaned num avg col) = cleaned num avg col"
proof -
  let ?c = "to_numeric num col"
  have fl: "to_numeric num (cleaned num avg col) = cleaned num avg col"
    by (rule to_numeric_floats) (auto dest: cleaned_is_float)
  show ?thesis
  proof (cases "mean avg ?c")
    case None
    then have c: "cleaned num avg col = ?c"
      by (simp add: cleaned_def fillna_None)
    have "to_numeric num ?c = ?c"
      using fl c by simp
    then show ?thesis
      using None by (simp add: cleaned_def [of num avg ?c] fillna_None c)
  next
    case (Some m)
    then have c: "cleaned num avg col = fillna ?c (Some m)"
      by (simp add: cleaned_def)
    let ?x = "fillna ?c (Some m)"
    have "cleaned num avg ?x = fillna (to_numeric num ?x) (mean avg (to_numeric num ?x))"
      by (simp add: cleaned_def Let_def)
    also have "\<dots> = fillna ?x (mean avg ?x)"
      using fl c by simp
    also have "\<dots> = ?x"
      by (rule fillna_no_missing) (rule fillna_Some_no_missing)
    finally show ?thesis
      by (simp add: c)
  qed
qed

lemma clean_frame:
  "n \<notin> set cols \<Longrightarrow> map_of (fst (clean_missing_numerics num avg df cols)) n = map_of df n"
proof (induction cols arbitrary: df)
  case Nil
  show ?case by simp
next
  case (Cons a cols)
  then show ?case
    by (cases "map_of df a") (auto simp: clean_step map_of_df_setitem simp del: clean_missing_numerics.simps)
qed

lemma clean_keys: "map fst (fst (clean_missing_numerics num avg df cols)) = map fst df"
proof (induction cols arbitrary: df)
  case Nil
  show ?case by simp
next
  case (Cons a cols)
  then show ?case
    by (cases "map_of df a") (auto simp: clean_step keys_df_setitem simp del: clean_missing_numerics.simps)
qed

lemma clean_column_cases:
  "map_of df n = Some col \<Longrightarrow>
   map_of (fst (clean_missing_numerics num avg df cols)) n = Some col
   \<or> map_of (fst (clean_missing_numerics num avg df cols)) n = Some (cleaned num avg col)"
proof (induction cols arbitrary: df col)
  case Nil
  then show ?case by simp
next
  case (Cons a cols)
  show ?case
  proof (cases "map_of df a")
    case None
    with Cons.prems show ?thesis by (simp add: clean_step del: clean_missing_numerics.simps)
  next
    case (Some ca)
    show ?thesis
    proof (cases "a = n")
      case True
      with Some Cons.prems have ca: "ca = col" by simp
      have "map_of (df_setitem df n (cleaned num avg col)) n = Some (cleaned num avg col)"
        by (simp add: map_of_df_setitem)
      from Cons.IH [OF this] show ?thesis
        using Some True ca by (simp add: clean_step cleaned_idem del: clean_missing_numerics.simps)
    next
      case False
      then have "map_of (df_setitem df a (cleaned num avg ca)) n = Some col"
        using Cons.prems by (simp add: map_of_df_setitem)
      from Cons.IH [OF this] show ?thesis
        using Some by (simp add: clean_step del: clean_missing_numerics.simps)
    qed
  qed
qed

lemma clean_succeeds:
  "set cols \<subseteq> fst ` set df \<Longrightarrow> snd (clean_missing_numerics num avg df cols) = None"
proof (induction cols arbitrary: df)
  case Nil
  show ?case by simp
next
  case (Cons a cols)
  then obtain ca where ca: "map_of df a = Some ca"
    by (cases "map_of df a") (auto simp: map_of_eq_None_iff)
  have "fst ` set (df_setitem df a (cleaned num avg ca)) = fst ` set df"
    using keys_df_setitem [OF ca, of "cleaned num avg ca"] by (metis set_map)
  with Cons show ?case
    using ca by (simp add: clean_step del: clean_missing_numerics.simps)
qed

lemma clean_listed_column:
  "set cols \<subseteq> fst ` set df \<Longrightarrow> n \<in> set cols \<Longrightarrow> map_of df n = Some col \<Longrightarrow>
   map_of (fst (clean_missing_numerics num avg df cols)) n = Some (cleaned num avg col)"
proof (induction cols arbitrary: df col)
  case Nil
  then show ?case by simp
next
  case (Cons a cols)
  obtain ca where ca: "map_of df a = Some ca"
    using Cons.prems(1) by (cases "map_of df a") (auto simp: map_of_eq_None_iff)
  let ?df = "df_setitem df a (cleaned num avg ca)"
  have keys: "set cols \<subseteq> fst ` set ?df"
    using keys_df_setitem [OF ca, of "cleaned num avg ca"] Cons.prems(1) by (metis set_map set_subset_Cons subset_trans)
  show ?case
  proof (cases "a = n")
    case True
    with ca Cons.prems have eq: "ca = col" by simp
    have m: "map_of ?df n = Some (cleaned num avg col)"
      using True eq by (simp add: map_of_df_setitem)
    show ?thesis
      using clean_column_cases [OF m, of num avg cols] ca
      by (simp add: clean_step cleaned_idem True eq del: clean_missing_numerics.simps)
  next
    case False
    then have m: "map_of ?df n = Some col" and n: "n \<in> set cols"
      using Cons.prems by (auto simp: map_of_df_setitem)
    from Cons.IH [OF keys n m] show ?thesis
      using ca by (simp add: clean_step del: clean_missing_numerics.simps)
  qed
qed

lemma numbers_comprehension: "numbers col = [v. Float (Some v) \<leftarrow> col]"
  by (induction col rule: numbers.induct) simp_all

lemma cleaned_pointwise:
  "cleaned num avg col =
     map (\<lambda>c. case coerce num c of
                 Float (Some v) \<Rightarrow> Float (Some v)
               | _ \<Rightarrow> Float (mean avg (to_numeric num col))) col"
proof -
  have pt: "(if coerce num c = Float None then Float m else coerce num c)
        = (case coerce num c of Float (Some v) \<Rightarrow> Float (Some v) | _ \<Rightarrow> Float m)"
    for c m
    using coerce_is_float [of num c] by (auto split: option.splits)
  have "cleaned num avg col = fillna (to_numeric num col) (mean avg (to_numeric num col))"
    by (simp add: cleaned_def Let_def)
  also have "\<dots> = map (\<lambda>c. if coerce num c = Float None
                               then Float (mean avg (to_numeric num col)) else coerce num c) col"
    by (simp add: fillna_def to_numeric_def)
  finally show ?thesis
    by (simp only: pt)
qed

lemma mean_to_numeric:
  "mean avg (to_numeric num col) =
     (if [v. Float (Some v) \<leftarrow> map (coerce num) col] = [] then None
      else avg [v. Float (Some v) \<leftarrow> map (coerce num) col])"
  by (simp add: mean_def Let_def numbers_comprehension to_numeric_def)

lemma no_values_all_missing:
  "[v. Float (Some v) \<leftarrow> map (coerce num) col] = [] \<Longrightarrow> c \<in> set col \<Longrightarrow>
   coerce num c = Float None"
proof (induction col)
  case Nil
  then show ?case by simp
next
  case (Cons a col)
  then show ?case
    using coerce_is_float [of num a] by (auto split: cell.splits option.splits)
qed

lemma cleaned_length: "length (cleaned num avg col) = length col"
  by (simp add: cleaned_def fillna_def to_numeric_def Let_def)

lemma cleaned_keeps_numbers:
  "i < length col \<Longrightarrow> coerce num (col ! i) = Float (Some r) \<Longrightarrow>
   cleaned num avg col ! i = Float (Some r)"
  by (simp add: cleaned_def fillna_def to_numeric_def Let_def)

section \<open>The cleaner: results\<close>

text \<open>
  Claim C3, as amended. For a table holding every column named in the list, the cleaner
  returns normally and each listed column is fully numeric: a value that coerces to a
  number is kept as that number, and every other value is replaced by the mean of the
  column, which is the float64 average \<open>avg\<close> of the values that coerce, or NaN when there
  are none. So the column has no missing entry exactly when that mean is not NaN or no
  value was missing after coercion, and a column in which no value coerces is left
  all-missing.
\<close>

theorem clean_missing_numerics_imputes:
  assumes "set cols \<subseteq> fst ` set df" and "n \<in> set cols" and "map_of df n = Some col"
    and "vs = [v. Float (Some v) \<leftarrow> map (coerce num) col]"
    and "m = (if vs = [] then None else avg vs)"
  shows "snd (clean_missing_numerics num avg df cols) = None
    \<and> (\<exists>col'. map_of (fst (clean_missing_numerics num avg df cols)) n = Some col'
         \<and> col' = map (\<lambda>c. case coerce num c of
                               Float (Some v) \<Rightarrow> Float (Some v)
                             | _ \<Rightarrow> Float m) col
         \<and> (\<forall>c \<in> set col'. \<exists>f. c = Float f)
         \<and> ((\<forall>c \<in> set col'. c \<noteq> Float None)
              = (m \<noteq> None \<or> (\<forall>c \<in> set col. coerce num c \<noteq> Float None)))
         \<and> (vs = [] \<longrightarrow> col' = map (\<lambda>c. Float None) col))"
proof -
  let ?col' = "map (\<lambda>c. case coerce num c of
                               Float (Some v) \<Rightarrow> Float (Some v)
                             | _ \<Rightarrow> Float m) col"
  have m: "mean avg (to_numeric num col) = m"
    using assms(4,5) by (simp add: mean_to_numeric)
  have cp: "cleaned num avg col = ?col'"
    unfolding m [symmetric] by (rule cleaned_pointwise)
  have c: "map_of (fst (clean_missing_numerics num avg df cols)) n = Some ?col'"
    using clean_listed_column [OF assms(1-3), of num avg] by (simp only: cp)
  have fl: "\<forall>c \<in> set ?col'. \<exists>f. c = Float f"
    by (auto split: cell.splits option.splits)
  have el: "(case coerce num c of Float (Some v) \<Rightarrow> Float (Some v) | _ \<Rightarrow> Float m)
            = (if coerce num c = Float None then Float m else coerce num c)" for c
    using coerce_is_float [of num c] by (auto split: option.splits)
  have iff: "(\<forall>c \<in> set ?col'. c \<noteq> Float None)
              = (m \<noteq> None \<or> (\<forall>c \<in> set col. coerce num c \<noteq> Float None))"
    by (cases m) (auto simp: el)
  have allna: "?col' = map (\<lambda>c. Float None) col" if "vs = []"
  proof -
    have "m = None" using that assms(5) by simp
    moreover have "coerce num c = Float None" if "c \<in> set col" for c
      using no_values_all_missing [of num col c] \<open>vs = []\<close> assms(4) that by simp
    ultimately show ?thesis by (simp add: el)
  qed
  show ?thesis
    using c fl iff allna clean_succeeds [OF assms(1), of num avg] by blast
qed

theorem clean_missing_numerics_imputes_witness:
  "set [''p2''] \<subseteq> fst ` set sample_table \<and> ''p2'' \<in> set [''p2'']
   \<and> map_of sample_table ''p2'' = Some [Str ''1'', Str ''x'', Float (Some (Finite 4))]
   \<and> [v. Float (Some v) \<leftarrow> map (coerce decimal) [Str ''1'', Str ''x'', Float (Some (Finite 4))]]
       = [Finite 1, Finite 4]
   \<and> exact_average [Finite 1, Finite 4] = Some (Finite (5 / 2))
   \<and> clean_missing_numerics decimal exact_average sample_table [''p2'']
       = ([(''p2'', [Float (Some (Finite 1)), Float (Some (Finite (5 / 2))),
                    Float (Some (Finite 4))]),
           (''text'', [Str ''a'', Str ''b'', Str ''a''])], None)
   \<and> clean_missing_numerics decimal exact_average
         [(''p0'', [Str ''1'', Str ''inf'', Str ''-inf'', Str ''x''])] [''p0'']
       = ([(''p0'', [Float (Some (Finite 1)), Float (Some PosInf), Float (Some NegInf),
                    Float None])], None)"
proof -
  have d: "decimal ''1'' = Some (Finite 1)" "decimal ''x'' = None"
      "decimal ''inf'' = Some PosInf" "decimal ''-inf'' = Some NegInf"
    by (simp_all add: decimal_def)
  have h1: "set [''p2''] \<subseteq> fst ` set sample_table" by (simp add: sample_table_def)
  have h2: "''p2'' \<in> set [''p2'']" by simp
  have h3: "map_of sample_table ''p2'' = Some [Str ''1'', Str ''x'', Float (Some (Finite 4))]"
    by (simp add: sample_table_def)
  have h4: "[Finite 1, Finite 4]
      = [v. Float (Some v) \<leftarrow> map (coerce decimal) [Str ''1'', Str ''x'', Float (Some (Finite 4))]]"
    by (simp add: d)
  have a: "exact_average [Finite 1, Finite 4] = Some (Finite (5 / 2))"
    by (simp add: exact_average_def)
  have h5: "Some (Finite (5 / 2))
      = (if [Finite 1, Finite 4] = [] then None else exact_average [Finite 1, Finite 4])"
    by (simp add: a)
  have e: "clean_missing_numerics decimal exact_average sample_table [''p2'']
       = ([(''p2'', [Float (Some (Finite 1)), Float (Some (Finite (5 / 2))),
                    Float (Some (Finite 4))]),
           (''text'', [Str ''a'', Str ''b'', Str ''a''])], None)"
    by (simp add: sample_table_def df_getitem_def df_setitem_def to_numeric_def d mean_def
        fillna_def a Let_def)
  have i: "clean_missing_numerics decimal exact_average
         [(''p0'', [Str ''1'', Str ''inf'', Str ''-inf'', Str ''x''])] [''p0'']
       = ([(''p0'', [Float (Some (Finite 1)), Float (Some PosInf), Float (Some NegInf),
                    Float None])], None)"
    by (simp add: df_getitem_def df_setitem_def to_numeric_def d mean_def
        fillna_def exact_average_def Let_def)
  show ?thesis
    using clean_missing_numerics_imputes
        [where num = decimal and avg = exact_average and vs = "[Finite 1, Finite 4]"
           and m = "Some (Finite (5 / 2))", OF h1 h2 h3 h4 h5]
      h1 h2 h3 h4 a e i
    by simp
qed

text \<open>
  The claim as first stated fails on a column in which no value coerces: there is no mean,
  and the missing entry stays.
\<close>

theorem clean_missing_numerics_all_bad_counterexample:
  "clean_missing_numerics decimal exact_average [(''p0'', [Str ''abc''])] [''p0'']
     = ([(''p0'', [Float None])], None)"
  by (simp add: df_getitem_def df_setitem_def to_numeric_def decimal_def mean_def
      fillna_def Let_def)

text \<open>
  Claim C9. The cleaner keeps the names and the order of the columns, leaves every column
  that is not listed as it was, and keeps the length of every column and the row of every
  number: a value that coerces to a number is, at the same index, unchanged or that number.
  This holds of the table as the call leaves it, also when the call raises.
\<close>

theorem clean_missing_numerics_frame:
  "map fst (fst (clean_missing_numerics num avg df cols)) = map fst df
   \<and> (n \<notin> set cols \<longrightarrow> map_of (fst (clean_missing_numerics num avg df cols)) n = map_of df n)
   \<and> (map_of df n = Some col \<longrightarrow>
        (\<exists>col'. map_of (fst (clean_missing_numerics num avg df cols)) n = Some col'
           \<and> length col' = length col
           \<and> (\<forall>i < length col. \<forall>r. coerce num (col ! i) = Float (Some r) \<longrightarrow>
                 col' ! i = col ! i \<or> col' ! i = Float (Some r))))"
proof (intro conjI impI)
  show "map fst (fst (clean_missing_numerics num avg df cols)) = map fst df"
    by (rule clean_keys)
next
  assume "n \<notin> set cols"
  then show "map_of (fst (clean_missing_numerics num avg df cols)) n = map_of df n"
    by (rule clean_frame)
next
  assume "map_of df n = Some col"
  from clean_column_cases [OF this, of num avg cols]
  show "\<exists>col'. map_of (fst (clean_missing_numerics num avg df cols)) n = Some col'
           \<and> length col' = length col
           \<and> (\<forall>i < length col. \<forall>r. coerce num (col ! i) = Float (Some r) \<longrightarrow>
                 col' ! i = col ! i \<or> col' ! i = Float (Some r))"
    by (auto simp: cleaned_length cleaned_keeps_numbers)
qed

theorem clean_missing_numerics_frame_witness:
  "''text'' \<notin> set [''p2'']
   \<and> map_of sample_table ''text'' = Some [Str ''a'', Str ''b'', Str ''a'']
   \<and> map_of (fst (clean_missing_numerics decimal exact_average sample_table [''p2''])) ''text''
       = Some [Str ''a'', Str ''b'', Str ''a'']
   \<and> map fst (fst (clean_missing_numerics decimal exact_average sample_table [''p2'']))
       = [''p2'', ''text'']
   \<and> map_of sample_table ''p2'' = Some [Str ''1'', Str ''x'', Float (Some (Finite 4))]
   \<and> (0::nat) < length [Str ''1'', Str ''x'', Float (Some (Finite 4))]
   \<and> coerce decimal ([Str ''1'', Str ''x'', Float (Some (Finite 4))] ! 0)
       = Float (Some (Finite 1))
   \<and> map_of (fst (clean_missing_numerics decimal exact_average sample_table [''p2''])) ''p2''
       = Some [Float (Some (Finite 1)), Float (Some (Finite (5 / 2))), Float (Some (Finite 4))]"
proof -
  have d: "decimal ''1'' = Some (Finite 1)" "decimal ''x'' = None"
    by (simp_all add: decimal_def)
  have h1: "''text'' \<notin> set [''p2'']" by simp
  have h2: "map_of sample_table ''text'' = Some [Str ''a'', Str ''b'', Str ''a'']"
    by (simp add: sample_table_def)
  have h3: "map_of sample_table ''p2'' = Some [Str ''1'', Str ''x'', Float (Some (Finite 4))]"
    by (simp add: sample_table_def)
  have e: "clean_missing_numerics decimal exact_average sample_table [''p2'']
       = ([(''p2'', [Float (Some (Finite 1)), Float (Some (Finite (5 / 2))),
                    Float (Some (Finite 4))]),
           (''text'', [Str ''a'', Str ''b'', Str ''a''])], None)"
    by (simp add: sample_table_def df_getitem_def df_setitem_def to_numeric_def d mean_def
        fillna_def exact_average_def Let_def)
  have "map_of (fst (clean_missing_numerics decimal exact_average sample_table [''p2''])) ''text''
        = map_of sample_table ''text''"
    using clean_missing_numerics_frame
      [where num = decimal and avg = exact_average and df = sample_table
         and cols = "[''p2'']" and n = "''text''"] h1
    by blast
  then show ?thesis
    using h1 h2 h3 e by (simp add: d)
qed

end
